theory Spec2Isabelle
  imports Complex_Main
begin

section \<open>JavaScript runtime primitives used by the component\<close>

text \<open>
  Strings are lists of characters: the code units from 0 to 255, read as in JavaScript (ASCII
  and the Latin-1 supplement). A JavaScript Number is a real, and
  \<open>NaN\<close> is \<open>None\<close> of an option type. Each primitive below models one library function the
  source calls; the component's own functions follow and keep their source names.
\<close>

subsection \<open>Strings\<close>

definition substring :: "nat \<Rightarrow> nat \<Rightarrow> string \<Rightarrow> string" where
  \<comment> \<open>\<open>s.substring(a, b)\<close> for \<open>a \<le> b\<close>: out-of-range indices are clipped to the length.\<close>
  "substring a b s = take (b - a) (drop a s)"

definition isWhiteSpace :: "char \<Rightarrow> bool" where
  \<comment> \<open>White space and line terminators of JavaScript among the code units below 256:
      tab, line feed, vertical tab, form feed, carriage return, space and no-break space.\<close>
  "isWhiteSpace c = ((of_char c :: nat) \<in> {9, 10, 11, 12, 13, 32, 160})"

definition trim :: "string \<Rightarrow> string" where
  "trim s = rev (dropWhile isWhiteSpace (rev (dropWhile isWhiteSpace s)))"

definition lowerChar :: "char \<Rightarrow> char" where
  \<comment> \<open>The cased letters below 256: \<open>A\<close> to \<open>Z\<close>, and \<open>U+00C0\<close> to \<open>U+00DE\<close> without the
      multiplication sign \<open>U+00D7\<close>; each has its lower-case letter 32 code units above.\<close>
  "lowerChar c =
     (let k = (of_char c :: nat) in
      if (65 \<le> k \<and> k \<le> 90) \<or> (192 \<le> k \<and> k \<le> 222 \<and> k \<noteq> 215)
      then char_of (k + 32) else c)"

definition toLowerCase :: "string \<Rightarrow> string" where
  "toLowerCase s = map lowerChar s"

fun includes_str :: "string \<Rightarrow> string \<Rightarrow> bool" where
  \<comment> \<open>\<open>s.includes(t)\<close>: \<open>t\<close> occurs in \<open>s\<close> as a contiguous run.\<close>
  "includes_str [] t = (t = [])"
| "includes_str (c # s) t = (take (length t) (c # s) = t \<or> includes_str s t)"

subsection \<open>Numbers and their string forms\<close>

definition digitChar :: "nat \<Rightarrow> char" where
  "digitChar d = ''0123456789abcdefghijklmnopqrstuvwxyz'' ! d"

function natToString :: "nat \<Rightarrow> nat \<Rightarrow> string" where
  \<comment> \<open>The digits of \<open>n\<close> in a radix from 2 to 36; the component uses 10 and 16.\<close>
  "natToString radix n =
     (if n < radix \<or> radix < 2 then [digitChar n]
      else natToString radix (n div radix) @ [digitChar (n mod radix)])"
  by pat_completeness auto
termination
  by (relation "measure (\<lambda>(radix, n). n)") auto

declare natToString.simps [simp del]

definition toString :: "nat \<Rightarrow> int \<Rightarrow> string" where
  \<comment> \<open>\<open>n.toString(radix)\<close> of an integer-valued Number; \<open>String(n)\<close> is radix 10.\<close>
  "toString radix n =
     (if n < 0 then CHR ''-'' # natToString radix (nat (- n)) else natToString radix (nat n))"

definition hexDigitValue :: "char \<Rightarrow> nat option" where
  "hexDigitValue c =
     (let k = (of_char c :: nat) in
      if 48 \<le> k \<and> k \<le> 57 then Some (k - 48)
      else if 97 \<le> k \<and> k \<le> 102 then Some (k - 87)
      else if 65 \<le> k \<and> k \<le> 70 then Some (k - 55)
      else None)"

fun hexPrefixValue :: "nat option \<Rightarrow> string \<Rightarrow> nat option" where
  \<comment> \<open>The value of the longest prefix of hex digits; \<open>None\<close> while no digit has been read.\<close>
  "hexPrefixValue acc [] = acc"
| "hexPrefixValue acc (c # cs) =
     (case hexDigitValue c of
        None \<Rightarrow> acc
      | Some d \<Rightarrow> hexPrefixValue (Some (16 * (case acc of None \<Rightarrow> 0 | Some a \<Rightarrow> a) + d)) cs)"

definition parseInt16 :: "string \<Rightarrow> int option" where
  \<comment> \<open>\<open>parseInt(s, 16)\<close>: leading white space, a sign and a \<open>0x\<close> prefix are skipped, then the
      longest run of hex digits is read; \<open>NaN\<close> when there is none.\<close>
  "parseInt16 s =
     (let s1 = dropWhile isWhiteSpace s;
          neg = (case s1 of c # _ \<Rightarrow> c = CHR ''-'' | [] \<Rightarrow> False);
          s2 = (case s1 of c # cs \<Rightarrow> if c = CHR ''-'' \<or> c = CHR ''+'' then cs else s1 | [] \<Rightarrow> s1);
          s3 = (case s2 of
                  a # b # cs \<Rightarrow> if a = CHR ''0'' \<and> (b = CHR ''x'' \<or> b = CHR ''X'') then cs else s2
                | _ \<Rightarrow> s2)
      in map_option (\<lambda>v. if neg then - int v else int v) (hexPrefixValue None s3))"

definition firstDigit :: "real \<Rightarrow> int" where
  \<comment> \<open>The leading significant decimal digit of a positive real.\<close>
  "firstDigit y = \<lfloor>y / 10 powr (of_int \<lfloor>log 10 y\<rfloor>)\<rfloor>"

definition parseIntNumber :: "real \<Rightarrow> int" where
  \<comment> \<open>\<open>parseInt(x)\<close> of a finite Number: \<open>x\<close> is first converted to a string, which is
      positional for \<open>1e-6 \<le> |x| < 1e21\<close> (the integer part is read: truncation towards zero)
      and in exponent notation otherwise (only the leading digit is read).\<close>
  "parseIntNumber x =
     (let y = \<bar>x\<bar>;
          m = (if y = 0 then 0
               else if 10 ^ 21 \<le> y \<or> y < 1 / 10 ^ 6 then firstDigit y
               else \<lfloor>y\<rfloor>)
      in if x < 0 then - m else m)"

section \<open>Colour utilities\<close>

definition gammaCorrect :: "real \<Rightarrow> real" where
  \<comment> \<open>The callback of \<open>uicolors.map\<close> in \<open>getTextColor\<close>.\<close>
  "gammaCorrect col = (if col \<le> 0.03928 then col / 12.92 else ((col + 0.055) / 1.055) powr 2.4)"

definition luminance :: "string \<Rightarrow> real option" where
  \<comment> \<open>The value \<open>L\<close> computed by \<open>getTextColor\<close> for a non-empty argument; \<open>None\<close> is \<open>NaN\<close>.\<close>
  "luminance bgColor =
     (let color = (if take 1 bgColor = ''#'' then substring 1 7 bgColor else bgColor);
          r = parseInt16 (substring 0 2 color);
          g = parseInt16 (substring 2 4 color);
          b = parseInt16 (substring 4 6 color)
      in case (r, g, b) of
           (Some r, Some g, Some b) \<Rightarrow>
             Some (0.2126 * gammaCorrect (of_int r / 255)
                 + 0.7152 * gammaCorrect (of_int g / 255)
                 + 0.0722 * gammaCorrect (of_int b / 255))
         | _ \<Rightarrow> None)"

definition getTextColor :: "string \<Rightarrow> string" where
  "getTextColor bgColor =
     (if bgColor = [] then ''#ffffff''
      else case luminance bgColor of
             Some L \<Rightarrow> if L > 0.179 then ''#000000'' else ''#ffffff''
           | None \<Rightarrow> ''#ffffff'')"

definition scaleChannel :: "int option \<Rightarrow> int \<Rightarrow> int option" where
  \<comment> \<open>\<open>parseInt(R * (100 + percent) / 100)\<close>; \<open>NaN\<close> stays \<open>NaN\<close>.\<close>
  "scaleChannel R percent =
     map_option (\<lambda>r. parseIntNumber (of_int r * of_int (100 + percent) / 100)) R"

definition capChannel :: "int option \<Rightarrow> int" where
  \<comment> \<open>\<open>(R<255)?R:255\<close>; the comparison is false on \<open>NaN\<close>.\<close>
  "capChannel R = (case R of Some r \<Rightarrow> if r < 255 then r else 255 | None \<Rightarrow> 255)"

definition padHex :: "int \<Rightarrow> string" where
  \<comment> \<open>\<open>(R.toString(16).length==1) ? "0"+R.toString(16) : R.toString(16)\<close>\<close>
  "padHex R = (if length (toString 16 R) = 1 then CHR ''0'' # toString 16 R else toString 16 R)"

definition shadeChannel :: "string \<Rightarrow> int \<Rightarrow> int" where
  \<comment> \<open>The final value of \<open>R\<close>, \<open>G\<close> or \<open>B\<close> in \<open>shadeColor\<close>, from its two-character slice.\<close>
  "shadeChannel slice percent = capChannel (scaleChannel (parseInt16 slice) percent)"

definition shadeColor :: "string \<Rightarrow> int \<Rightarrow> string" where
  "shadeColor color percent =
     (let R = shadeChannel (substring 1 3 color) percent;
          G = shadeChannel (substring 3 5 color) percent;
          B = shadeChannel (substring 5 7 color) percent
      in CHR ''#'' # padHex R @ padHex G @ padHex B)"

text \<open>
  Reference forms used to state the colour properties: a colour is \<open>#\<close> followed by six hex
  digits, \<open>byteAt\<close> reads one channel, \<open>hexByte\<close> writes one as two lower-case digits.
\<close>

definition isHexColor :: "string \<Rightarrow> bool" where
  "isHexColor s =
     (case s of
        c # ds \<Rightarrow> c = CHR ''#'' \<and> length ds = 6 \<and> list_all (\<lambda>d. hexDigitValue d \<noteq> None) ds
      | [] \<Rightarrow> False)"

definition byteAt :: "string \<Rightarrow> nat \<Rightarrow> int" where
  "byteAt s i = int (16 * the (hexDigitValue (s ! i)) + the (hexDigitValue (s ! (i + 1))))"

definition hexByte :: "int \<Rightarrow> string" where
  "hexByte v = [digitChar (nat v div 16), digitChar (nat v mod 16)]"

definition shade_spec :: "int \<Rightarrow> int \<Rightarrow> int" where
  \<comment> \<open>The specification's channel map: scale by \<open>(100 + p) / 100\<close>, clamp into \<open>[0, 255]\<close>.\<close>
  "shade_spec c p = max 0 (min 255 \<lfloor>of_int c * of_int (100 + p) / (100 :: real)\<rfloor>)"

definition gamma_spec :: "real \<Rightarrow> real" where
  \<comment> \<open>The specification's gamma correction: linear strictly below \<open>0.03928\<close>.\<close>
  "gamma_spec c = (if c < 0.03928 then c / 12.92 else ((c + 0.055) / 1.055) powr 2.4)"

definition relativeLuminance_spec :: "string \<Rightarrow> real" where
  "relativeLuminance_spec hexColor =
     0.2126 * gamma_spec (of_int (byteAt hexColor 1) / 255)
   + 0.7152 * gamma_spec (of_int (byteAt hexColor 3) / 255)
   + 0.0722 * gamma_spec (of_int (byteAt hexColor 5) / 255)"

section \<open>Data model\<close>

text \<open>
  A Firestore \<open>Timestamp\<close> is modelled by the \<open>Date\<close> its \<open>toDate()\<close> returns, and a \<open>Date\<close> by the
  results of the four methods the component calls on it, in the browser's time zone and
  locale. A note is \<open>{ id: d.id, ...d.data() }\<close>; a stored document may lack its timestamp.
  One render, effect run or handler call is taken to happen within one local calendar day:
  every \<open>new Date().toDateString()\<close> it evaluates yields the same string \<open>today\<close>.
\<close>

record jsDate =
  dateString :: string   \<comment> \<open>\<open>toDateString()\<close>\<close>
  fullYear :: int   \<comment> \<open>\<open>getFullYear()\<close>\<close>
  monthLong :: string   \<comment> \<open>\<open>toLocaleString('default', { month: 'long' })\<close>\<close>
  dayOfMonth :: nat   \<comment> \<open>\<open>getDate()\<close>\<close>

record diaryNote =
  note_id :: string
  note_text :: string
  timestamp :: "jsDate option"

record docData =
  doc_text :: string
  doc_timestamp :: "jsDate option"

definition docOf :: "diaryNote \<Rightarrow> docData" where
  \<comment> \<open>The stored data of a note: the note without its id.\<close>
  "docOf n = \<lparr>doc_text = note_text n, doc_timestamp = timestamp n\<rparr>"

text \<open>
  The document store maps a document path \<open>users/{uid}/notes/{id}\<close>, kept as the pair
  \<open>(uid, id)\<close>, to its data. Writes are taken to reach the store; \<open>updateDoc\<close> is rejected
  when the document does not exist.
\<close>

type_synonym docPath = "string \<times> string"
type_synonym store = "docPath \<rightharpoonup> docData"

datatype jsError = TypeError | NotFound

datatype selection = All | Year int | Month int string

datatype speechCall = Start | Stop

text \<open>
  The two clocks of the world at the moment of a call. The component can read the client's
  only; the server's is there to say what the component does not use.
\<close>

record clocks =
  clientClock :: jsDate
  serverClock :: jsDate

record appState =
  notesState :: "diaryNote list"
  user :: "string option"
  isRecording :: bool
  editingNote :: "diaryNote option"
  editText :: string
  showPastNotes :: bool
  showDeleteConfirm :: "selection option"
  micError :: string
  searchTerm :: string
  expandedItems :: "string \<rightharpoonup> bool"
  firestoreError :: "string option"
  recognitionRef :: "string option"   \<comment> \<open>the recognition handle (its language), \<open>None\<close> until created\<close>
  transcriptRef :: string
  db :: store   \<comment> \<open>external: the Firestore documents\<close>
  committed :: "docPath list list"   \<comment> \<open>external: the delete batches committed so far\<close>
  speechCalls :: "speechCall list"   \<comment> \<open>external: the requests made to the recognition handle\<close>

subsection \<open>Store operations\<close>

definition Timestamp_now :: "clocks \<Rightarrow> jsDate" where
  \<comment> \<open>Firestore's \<open>Timestamp.now()\<close> is \<open>Timestamp.fromMillis(Date.now())\<close>: the local clock.\<close>
  "Timestamp_now env = clientClock env"

definition addDoc :: "string \<Rightarrow> string \<Rightarrow> docData \<Rightarrow> store \<Rightarrow> store" where
  \<comment> \<open>\<open>addDoc(collection(db, `users/${uid}/notes`), data)\<close>, \<open>newId\<close> being the generated id.\<close>
  "addDoc uid newId d st = st((uid, newId) \<mapsto> d)"

definition updateDoc :: "docPath \<Rightarrow> string \<Rightarrow> store \<Rightarrow> jsError + store" where
  \<comment> \<open>\<open>updateDoc(doc(db, path), { text: t })\<close>\<close>
  "updateDoc path t st =
     (case st path of None \<Rightarrow> Inl NotFound | Some d \<Rightarrow> Inr (st(path \<mapsto> d\<lparr>doc_text := t\<rparr>)))"

definition batchDelete :: "docPath list \<Rightarrow> store \<Rightarrow> store" where
  \<comment> \<open>A write batch of \<open>batch.delete(doc(db, path))\<close> calls, committed.\<close>
  "batchDelete paths st = (\<lambda>k. if k \<in> set paths then None else st k)"

section \<open>The component\<close>

text \<open>
  The definitions without suffix follow \<open>src/App.jsx\<close>. The repository holds two further copies
  of the component; both read the same in every function below. Where a copy differs from
  \<open>src/App.jsx\<close>, its function is modelled too, with the suffix \<open>_alt\<close>.
\<close>

subsection \<open>Note management\<close>

definition addNote :: "clocks \<Rightarrow> string \<Rightarrow> string \<Rightarrow> appState \<Rightarrow> appState" where
  \<comment> \<open>\<open>newId\<close> is the document id that \<open>addDoc\<close> generates. The other copies wrap the call in
      \<open>try\<close>/\<open>catch\<close>, which makes no difference while writes reach the store.\<close>
  "addNote env newId txt s =
     (case user s of
        Some uid \<Rightarrow>
          if trim txt \<noteq> []
          then s\<lparr>db := addDoc uid newId
                        \<lparr>doc_text = trim txt, doc_timestamp = Some (Timestamp_now env)\<rparr> (db s)\<rparr>
          else s
      | None \<Rightarrow> s)"

definition selected :: "selection \<Rightarrow> diaryNote \<Rightarrow> bool" where
  \<comment> \<open>The callback of \<open>notes.filter\<close> in \<open>handleConfirmDelete\<close>.\<close>
  "selected sel n =
     (case timestamp n of
        None \<Rightarrow> False
      | Some d \<Rightarrow>
          (case sel of
             Year y \<Rightarrow> fullYear d = y
           | Month y m \<Rightarrow> fullYear d = y \<and> monthLong d = m
           | All \<Rightarrow> False))"

definition handleConfirmDelete :: "appState \<Rightarrow> appState" where
  "handleConfirmDelete s =
     (case (user s, showDeleteConfirm s) of
        (Some uid, Some sel) \<Rightarrow>
          (let toDelete = (if sel = All then notesState s else filter (selected sel) (notesState s))
           in if length toDelete = 0 then s\<lparr>showDeleteConfirm := None\<rparr>
              else s\<lparr>db := batchDelete (map (\<lambda>n. (uid, note_id n)) toDelete) (db s),
                     committed := committed s @ [map (\<lambda>n. (uid, note_id n)) toDelete],
                     showDeleteConfirm := None\<rparr>)
      | _ \<Rightarrow> s)"

definition startEditing :: "diaryNote \<Rightarrow> appState \<Rightarrow> appState" where
  "startEditing n s = s\<lparr>editingNote := Some n, editText := note_text n\<rparr>"

definition saveEdit :: "appState \<Rightarrow> jsError + appState" where
  \<comment> \<open>A rejected \<open>updateDoc\<close> leaves the handler before the two state setters.\<close>
  "saveEdit s =
     (case (user s, editingNote s) of
        (Some uid, Some n) \<Rightarrow>
          (case updateDoc (uid, note_id n) (editText s) (db s) of
             Inl e \<Rightarrow> Inl e
           | Inr st \<Rightarrow> Inr (s\<lparr>db := st, editingNote := None, editText := []\<rparr>))
      | _ \<Rightarrow> Inr (s\<lparr>editingNote := None, editText := []\<rparr>))"

definition saveEdit_alt :: "appState \<Rightarrow> appState" where
  \<comment> \<open>Early return without user or edited note; a rejected update is caught and logged.\<close>
  "saveEdit_alt s =
     (case (user s, editingNote s) of
        (Some uid, Some n) \<Rightarrow>
          (case updateDoc (uid, note_id n) (editText s) (db s) of
             Inl e \<Rightarrow> s
           | Inr st \<Rightarrow> s\<lparr>db := st, editingNote := None, editText := []\<rparr>)
      | _ \<Rightarrow> s)"

subsection \<open>Recording\<close>

definition handleRecordStart :: "appState \<Rightarrow> appState" where
  "handleRecordStart s =
     (if micError s \<noteq> [] \<or> recognitionRef s = None then s
      else s\<lparr>transcriptRef := [], isRecording := True, speechCalls := speechCalls s @ [Start]\<rparr>)"

definition handleRecordStop :: "appState \<Rightarrow> appState" where
  "handleRecordStop s =
     (if micError s \<noteq> [] \<or> recognitionRef s = None \<or> \<not> isRecording s then s
      else s\<lparr>speechCalls := speechCalls s @ [Stop]\<rparr>)"

subsection \<open>Expansion state\<close>

definition toggleExpand :: "string \<Rightarrow> appState \<Rightarrow> appState" where
  "toggleExpand key s = s\<lparr>expandedItems := (expandedItems s)(key \<mapsto> expandedItems s key \<noteq> Some True)\<rparr>"

definition noteDateString :: "diaryNote \<Rightarrow> string option" where
  \<comment> \<open>\<open>n.timestamp?.toDate().toDateString()\<close>, \<open>None\<close> being \<open>undefined\<close>.\<close>
  "noteDateString n = map_option dateString (timestamp n)"

definition textMatches :: "string \<Rightarrow> diaryNote \<Rightarrow> bool" where
  \<comment> \<open>\<open>n.text.toLowerCase().includes(searchTerm.toLowerCase())\<close>\<close>
  "textMatches term n = includes_str (toLowerCase (note_text n)) (toLowerCase term)"

definition searchMatches :: "string \<Rightarrow> string \<Rightarrow> diaryNote list \<Rightarrow> diaryNote list" where
  "searchMatches today term ns =
     filter (\<lambda>n. textMatches term n \<and> noteDateString n \<noteq> Some today) ns"

definition searchMatches_alt :: "string \<Rightarrow> string \<Rightarrow> diaryNote list \<Rightarrow> diaryNote list" where
  "searchMatches_alt today term ns =
     filter (\<lambda>n. textMatches term n \<and> timestamp n \<noteq> None \<and> noteDateString n \<noteq> Some today) ns"

definition yearKey :: "jsDate \<Rightarrow> string" where
  \<comment> \<open>The property key of \<open>newExpanded[d.getFullYear()]\<close>.\<close>
  "yearKey d = toString 10 (fullYear d)"

definition monthKey :: "jsDate \<Rightarrow> string" where
  \<comment> \<open>\<open>`${d.getFullYear()}-${d.toLocaleString('default',{month:'long'})}`\<close>\<close>
  "monthKey d = toString 10 (fullYear d) @ ''-'' @ monthLong d"

fun expandMatches :: "diaryNote list \<Rightarrow> (string \<rightharpoonup> bool) \<Rightarrow> jsError + (string \<rightharpoonup> bool)" where
  \<comment> \<open>\<open>matches.forEach(...)\<close> filling \<open>newExpanded\<close>; \<open>n.timestamp.toDate()\<close> throws without a timestamp.\<close>
  "expandMatches [] newExpanded = Inr newExpanded"
| "expandMatches (n # ns) newExpanded =
     (case timestamp n of
        None \<Rightarrow> Inl TypeError
      | Some d \<Rightarrow> expandMatches ns (newExpanded(yearKey d \<mapsto> True, monthKey d \<mapsto> True)))"

definition searchExpansionEffect :: "string \<Rightarrow> appState \<Rightarrow> jsError \<times> appState + appState" where
  \<comment> \<open>\<open>Inl (e, s')\<close>: the effect threw \<open>e\<close>, leaving the state \<open>s'\<close>.\<close>
  "searchExpansionEffect today s =
     (if trim (searchTerm s) = [] then Inr s
      else
        let matches = searchMatches today (searchTerm s) (notesState s);
            s1 = (if length matches > 0 then s\<lparr>showPastNotes := True\<rparr> else s)
        in case expandMatches matches Map.empty of
             Inl e \<Rightarrow> Inl (e, s1)
           | Inr newExpanded \<Rightarrow> Inr (s1\<lparr>expandedItems := expandedItems s1 ++ newExpanded\<rparr>))"

definition searchExpansionEffect_alt :: "string \<Rightarrow> appState \<Rightarrow> jsError \<times> appState + appState" where
  "searchExpansionEffect_alt today s =
     (if trim (searchTerm s) = [] then Inr (s\<lparr>expandedItems := Map.empty\<rparr>)
      else
        let pastMatchingNotes = searchMatches_alt today (searchTerm s) (notesState s);
            s1 = (if length pastMatchingNotes > 0 then s\<lparr>showPastNotes := True\<rparr> else s)
        in case expandMatches pastMatchingNotes Map.empty of
             Inl e \<Rightarrow> Inl (e, s1)
           | Inr newExpanded \<Rightarrow> Inr (s1\<lparr>expandedItems := newExpanded\<rparr>))"

fun searchSession :: "string \<Rightarrow> string list \<Rightarrow> appState \<Rightarrow> jsError \<times> appState + appState" where
  \<comment> \<open>The search box's \<open>onChange\<close> sets \<open>searchTerm\<close>, which runs the effect: one step per term.\<close>
  "searchSession today [] s = Inr s"
| "searchSession today (t # ts) s =
     (case searchExpansionEffect today (s\<lparr>searchTerm := t\<rparr>) of
        Inl e \<Rightarrow> Inl e
      | Inr s' \<Rightarrow> searchSession today ts s')"

subsection \<open>Grouping and filtering\<close>

type_synonym hierarchy = "int \<rightharpoonup> (string \<rightharpoonup> (nat \<rightharpoonup> diaryNote list))"

definition filteredNotes :: "string \<Rightarrow> diaryNote list \<Rightarrow> diaryNote list" where
  "filteredNotes term ns = filter (textMatches term) ns"

definition todayNotes :: "string \<Rightarrow> diaryNote list \<Rightarrow> diaryNote list" where
  "todayNotes today fs = filter (\<lambda>n. noteDateString n = Some today) fs"

definition pastNotesRaw :: "string \<Rightarrow> diaryNote list \<Rightarrow> diaryNote list" where
  "pastNotesRaw today fs = filter (\<lambda>n. noteDateString n \<noteq> Some today) fs"

definition todayNotes_alt :: "string \<Rightarrow> diaryNote list \<Rightarrow> diaryNote list" where
  "todayNotes_alt todayString fs =
     filter (\<lambda>n. timestamp n \<noteq> None \<and> noteDateString n = Some todayString) fs"

definition pastNotesRaw_alt :: "string \<Rightarrow> diaryNote list \<Rightarrow> diaryNote list" where
  "pastNotesRaw_alt todayString fs =
     filter (\<lambda>n. timestamp n \<noteq> None \<and> noteDateString n \<noteq> Some todayString) fs"

definition addToHierarchy :: "hierarchy \<Rightarrow> diaryNote \<Rightarrow> hierarchy" where
  \<comment> \<open>The reducer of \<open>structuredPastNotes\<close>: absent levels are created, the note is pushed.
      The nested objects are maps keyed by year, month name and day; a month name is taken
      not to be the name of a member of \<open>Object.prototype\<close>.\<close>
  "addToHierarchy acc n =
     (case timestamp n of
        None \<Rightarrow> acc
      | Some d \<Rightarrow>
          let y = fullYear d; m = monthLong d; day = dayOfMonth d;
              months = (case acc y of None \<Rightarrow> Map.empty | Some ms \<Rightarrow> ms);
              days = (case months m of None \<Rightarrow> Map.empty | Some ds \<Rightarrow> ds);
              dayNotes = (case days day of None \<Rightarrow> [] | Some xs \<Rightarrow> xs)
          in acc(y \<mapsto> months(m \<mapsto> days(day \<mapsto> dayNotes @ [n]))))"

definition structuredPastNotes :: "diaryNote list \<Rightarrow> hierarchy" where
  "structuredPastNotes raw = foldl addToHierarchy Map.empty raw"

definition bucket :: "hierarchy \<Rightarrow> int \<Rightarrow> string \<Rightarrow> nat \<Rightarrow> diaryNote list" where
  \<comment> \<open>The notes rendered under \<open>structuredPastNotes[year][month][day]\<close>; none where a level is absent.\<close>
  "bucket h y m day =
     (case h y of
        None \<Rightarrow> []
      | Some months \<Rightarrow>
          (case months m of
             None \<Rightarrow> []
           | Some days \<Rightarrow> (case days day of None \<Rightarrow> [] | Some xs \<Rightarrow> xs)))"

definition grouping :: "string \<Rightarrow> string \<Rightarrow> diaryNote list \<Rightarrow> diaryNote list \<times> hierarchy" where
  \<comment> \<open>What one render derives from \<open>notes\<close> and \<open>searchTerm\<close>: the today list and the hierarchy.\<close>
  "grouping today term ns =
     (todayNotes today (filteredNotes term ns),
      structuredPastNotes (pastNotesRaw today (filteredNotes term ns)))"

definition grouping_alt :: "string \<Rightarrow> string \<Rightarrow> diaryNote list \<Rightarrow> diaryNote list \<times> hierarchy" where
  "grouping_alt todayString term ns =
     (todayNotes_alt todayString (filteredNotes term ns),
      structuredPastNotes (pastNotesRaw_alt todayString (filteredNotes term ns)))"

definition dateKey :: "diaryNote \<Rightarrow> (int \<times> string \<times> nat) option" where
  \<comment> \<open>The \<open>(year, month name, day)\<close> of a note's timestamp.\<close>
  "dateKey n = map_option (\<lambda>d. (fullYear d, monthLong d, dayOfMonth d)) (timestamp n)"

definition snapshotOf :: "string \<Rightarrow> store \<Rightarrow> diaryNote list \<Rightarrow> bool" where
  \<comment> \<open>\<open>notes\<close> as \<open>onSnapshot\<close> delivers it for the user's collection: one note per document.\<close>
  "snapshotOf uid st ns =
     (distinct (map note_id ns) \<and>
      list_all (\<lambda>n. st (uid, note_id n) = Some (docOf n)) ns)"

definition matchKeys :: "diaryNote list \<Rightarrow> string set" where
  \<comment> \<open>The year keys and \<open>{year}-{month}\<close> keys of a list of notes.\<close>
  "matchKeys ns =
     (\<Union>n \<in> set ns. case timestamp n of None \<Rightarrow> {} | Some d \<Rightarrow> {yearKey d, monthKey d})"

section \<open>Sample data\<close>

text \<open>
  The notes of \<open>loadSampleData\<close> that the properties below are tried on, seen on 15 July 2025,
  with one note whose timestamp has not arrived yet.
\<close>

definition sampleToday :: jsDate where
  "sampleToday =
     \<lparr>dateString = ''Tue Jul 15 2025'', fullYear = 2025, monthLong = ''July'', dayOfMonth = 15\<rparr>"

definition sampleJan20 :: jsDate where
  "sampleJan20 =
     \<lparr>dateString = ''Sat Jan 20 2024'', fullYear = 2024, monthLong = ''January'', dayOfMonth = 20\<rparr>"

definition sampleNov05 :: jsDate where
  "sampleNov05 =
     \<lparr>dateString = ''Sun Nov 05 2023'', fullYear = 2023, monthLong = ''November'', dayOfMonth = 5\<rparr>"

definition noteToday :: diaryNote where
  "noteToday =
     \<lparr>note_id = ''a'', note_text = ''This is a note from today.'', timestamp = Some sampleToday\<rparr>"

definition noteJan :: diaryNote where
  "noteJan =
     \<lparr>note_id = ''b'', note_text = ''Thinking about the new year, back in January 2024.'',
      timestamp = Some sampleJan20\<rparr>"

definition noteNov :: diaryNote where
  "noteNov =
     \<lparr>note_id = ''c'', note_text = ''A memory from a different year entirely.'',
      timestamp = Some sampleNov05\<rparr>"

definition notePending :: diaryNote where
  "notePending = \<lparr>note_id = ''d'', note_text = ''Just now'', timestamp = None\<rparr>"

definition sampleNotes :: "diaryNote list" where
  "sampleNotes = [noteToday, noteJan, noteNov, notePending]"

definition sampleStore :: store where
  "sampleStore =
     [(''u1'', ''a'') \<mapsto> docOf noteToday, (''u1'', ''b'') \<mapsto> docOf noteJan,
      (''u1'', ''c'') \<mapsto> docOf noteNov, (''u1'', ''d'') \<mapsto> docOf notePending]"

definition sampleState :: appState where
  "sampleState =
     \<lparr>notesState = sampleNotes, user = Some ''u1'', isRecording = False, editingNote = None,
      editText = [], showPastNotes = False, showDeleteConfirm = None, micError = [],
      searchTerm = [], expandedItems = Map.empty, firestoreError = None,
      recognitionRef = Some ''en-US'', transcriptRef = [], db = sampleStore, committed = [],
      speechCalls = []\<rparr>"

definition toggled2023 :: appState where
  \<comment> \<open>The sample state after the user opened the year 2023 and typed a search term.\<close>
  "toggled2023 = toggleExpand ''2023'' (sampleState\<lparr>searchTerm := ''new year''\<rparr>)"

definition sampleClocks :: clocks where
  "sampleClocks = \<lparr>clientClock = sampleToday, serverClock = sampleJan20\<rparr>"

definition recordingState :: appState where
  \<comment> \<open>The sample state while the user holds the button: started, with a transcript received.\<close>
  "recordingState = (handleRecordStart sampleState)\<lparr>transcriptRef := ''hello''\<rparr>"

definition editingState :: appState where
  \<comment> \<open>The sample state while the user edits the January note.\<close>
  "editingState = (startEditing noteJan sampleState)\<lparr>editText := ''Edited text''\<rparr>"

definition deleteYearState :: appState where
  \<comment> \<open>The sample state with the deletion of the year 2024 awaiting confirmation.\<close>
  "deleteYearState = sampleState\<lparr>showDeleteConfirm := Some (Year 2024)\<rparr>"

section \<open>Properties of the colour utilities\<close>

lemma hexDigit_plain:
  assumes "hexDigitValue c = Some d"
  shows "\<not> isWhiteSpace c" "c \<noteq> CHR ''-''" "c \<noteq> CHR ''+''" "c \<noteq> CHR ''x''" "c \<noteq> CHR ''X''" "d < 16"
  using assms by (auto simp: hexDigitValue_def isWhiteSpace_def Let_def split: if_splits)

lemma parseInt16_two_digits:
  assumes "hexDigitValue a = Some x" "hexDigitValue b = Some y"
  shows "parseInt16 [a, b] = Some (int (16 * x + y))"
  using assms hexDigit_plain[OF assms(1)] hexDigit_plain[OF assms(2)]
  by (simp add: parseInt16_def)

lemma natToString_small: "n < 16 \<Longrightarrow> natToString 16 n = [digitChar n]"
  by (simp add: natToString.simps)

lemma natToString_byte: "16 \<le> n \<Longrightarrow> n < 256 \<Longrightarrow> natToString 16 n = [digitChar (n div 16), digitChar (n mod 16)]"
  by (subst natToString.simps) (simp add: natToString_small less_mult_imp_div_less)

lemma padHex_byte: "0 \<le> v \<Longrightarrow> v \<le> 255 \<Longrightarrow> padHex v = hexByte v"
  by (cases "nat v < 16") (auto simp: padHex_def toString_def hexByte_def natToString_small natToString_byte digitChar_def)

lemma parseIntNumber_floor:
  assumes "x = 0 \<or> (1 / 10 ^ 6 \<le> x \<and> x < 10 ^ 21)"
  shows "parseIntNumber x = \<lfloor>x\<rfloor>"
proof (cases "x = 0")
  case True
  then show ?thesis by (simp add: parseIntNumber_def)
next
  case False
  with assms have b: "1 / 10 ^ 6 \<le> x" "x < 10 ^ 21" by auto
  then have "0 < x" by (smt (verit) divide_pos_pos zero_less_power)
  with b show ?thesis by (simp add: parseIntNumber_def Let_def)
qed

lemma parseIntNumber_scaled:
  assumes "0 \<le> c" "c \<le> 255" "- 100 \<le> p" "255 * (100 + p) < 10 ^ 23"
  shows "parseIntNumber (of_int c * of_int (100 + p) / 100) = \<lfloor>of_int c * of_int (100 + p) / (100::real)\<rfloor>"
proof -
  define n where "n = c * (100 + p)"
  have n0: "0 \<le> n" using assms by (simp add: n_def)
  have p0: "0 \<le> 100 + p" using assms(3) by simp
  have "c * (100 + p) \<le> 255 * (100 + p)" using assms(2) p0 by (rule mult_right_mono)
  then have n1: "n < 10 ^ 23" using assms(4) unfolding n_def by (rule le_less_trans)
  have "real_of_int n / 100 = 0 \<or> (1 / 10 ^ 6 \<le> real_of_int n / 100 \<and> real_of_int n / 100 < 10 ^ 21)"
  proof (cases "n = 0")
    case True
    then show ?thesis by simp
  next
    case False
    with n0 have "1 \<le> n" by simp
    then have "(1::real) \<le> of_int n" by linarith
    then have lo: "1 / 10 ^ 6 \<le> real_of_int n / 100" by simp
    have "real_of_int n < real_of_int (10 ^ 23)" using n1 by linarith
    then have "real_of_int n / 100 < 10 ^ 21" by simp
    with lo show ?thesis by simp
  qed
  then have "parseIntNumber (real_of_int n / 100) = \<lfloor>real_of_int n / 100\<rfloor>"
    by (rule parseIntNumber_floor)
  then show ?thesis by (simp add: n_def)
qed

lemma shadeChannel_hex:
  assumes "hexDigitValue a = Some x" "hexDigitValue b = Some y" "- 100 \<le> p" "255 * (100 + p) < 10 ^ 23"
  shows "shadeChannel [a, b] p = shade_spec (int (16 * x + y)) p"
    and "0 \<le> shadeChannel [a, b] p" and "shadeChannel [a, b] p \<le> 255"
proof -
  define c where "c = int (16 * x + y)"
  have xy: "x < 16" "y < 16" using assms hexDigit_plain(6) by blast+
  then have c: "0 \<le> c" "c \<le> 255" by (auto simp: c_def)
  define q where "q = \<lfloor>of_int c * of_int (100 + p) / (100::real)\<rfloor>"
  have q0: "0 \<le> q" using c assms by (simp add: q_def)
  have ch: "shadeChannel [a, b] p = (if q < 255 then q else 255)"
    using parseInt16_two_digits[OF assms(1,2)] parseIntNumber_scaled[OF c assms(3,4)]
    by (simp add: shadeChannel_def scaleChannel_def capChannel_def c_def q_def)
  have "shade_spec c p = max 0 (min 255 q)" by (simp only: shade_spec_def q_def)
  then have "shade_spec c p = (if q < 255 then q else 255)" using q0 by (simp add: max_def min_def)
  with ch show "shadeChannel [a, b] p = shade_spec (int (16 * x + y)) p"
    by (simp only: c_def)
  show "0 \<le> shadeChannel [a, b] p" "shadeChannel [a, b] p \<le> 255"
    using ch q0 by auto
qed

lemma isHexColor_chars:
  assumes "isHexColor color"
  obtains h1 h2 h3 h4 h5 h6 v1 v2 v3 v4 v5 v6 where
    "color = [CHR ''#'', h1, h2, h3, h4, h5, h6]"
    "hexDigitValue h1 = Some v1" "hexDigitValue h2 = Some v2" "hexDigitValue h3 = Some v3"
    "hexDigitValue h4 = Some v4" "hexDigitValue h5 = Some v5" "hexDigitValue h6 = Some v6"
proof -
  from assms obtain ds where c: "color = CHR ''#'' # ds" and l: "length ds = 6"
    and a: "list_all (\<lambda>d. hexDigitValue d \<noteq> None) ds"
    by (auto simp: isHexColor_def split: list.splits)
  from l obtain h1 h2 h3 h4 h5 h6 where ds: "ds = [h1, h2, h3, h4, h5, h6]"
    by (auto simp: length_Suc_conv eval_nat_numeral)
  with a c that show thesis by auto
qed

text \<open>
  Claim C8, as the code has it. For a colour \<open>#rrggbb\<close> and an integer percent \<open>p\<close> with
  \<open>-100 \<le> p\<close>, small enough that the scaled channels stay below \<open>1e21\<close>, \<open>shadeColor\<close> maps
  each channel to its value scaled by \<open>(100 + p) / 100\<close> and clamped into \<open>[0, 255]\<close>, and writes
  the result as \<open>#\<close> and two lower-case hex digits per channel; the three channel values lie
  in \<open>[0, 255]\<close>; and \<open>shadeColor "#808080" 0 = "#808080"\<close>. The code caps a channel only from
  above, so nothing holds the channels at zero when \<open>p < -100\<close>.
\<close>

theorem shadeColor_scales_and_caps:
  assumes "isHexColor color" and "- 100 \<le> p" and "255 * (100 + p) < 10 ^ 23"
  shows "shadeColor color p =
           CHR ''#'' # hexByte (shade_spec (byteAt color 1) p)
                     @ hexByte (shade_spec (byteAt color 3) p)
                     @ hexByte (shade_spec (byteAt color 5) p)
         \<and> list_all (\<lambda>c. 0 \<le> c \<and> c \<le> 255)
               [shadeChannel (substring 1 3 color) p, shadeChannel (substring 3 5 color) p,
                shadeChannel (substring 5 7 color) p]
         \<and> shadeColor ''#808080'' 0 = ''#808080''"
proof -
  from assms(1) obtain h1 h2 h3 h4 h5 h6 v1 v2 v3 v4 v5 v6 where
    col: "color = [CHR ''#'', h1, h2, h3, h4, h5, h6]" and
    h: "hexDigitValue h1 = Some v1" "hexDigitValue h2 = Some v2" "hexDigitValue h3 = Some v3"
       "hexDigitValue h4 = Some v4" "hexDigitValue h5 = Some v5" "hexDigitValue h6 = Some v6"
    by (rule isHexColor_chars)
  note R = shadeChannel_hex[OF h(1,2) assms(2,3)]
  note G = shadeChannel_hex[OF h(3,4) assms(2,3)]
  note B = shadeChannel_hex[OF h(5,6) assms(2,3)]
  have sl: "substring 1 3 color = [h1, h2]" "substring 3 5 color = [h3, h4]"
    "substring 5 7 color = [h5, h6]"
    by (simp_all add: col substring_def)
  have bytes: "byteAt color 1 = int (16 * v1 + v2)" "byteAt color 3 = int (16 * v3 + v4)"
    "byteAt color 5 = int (16 * v5 + v6)"
    using h by (simp_all add: col byteAt_def eval_nat_numeral)
  have "shadeColor color p = CHR ''#'' # padHex (shadeChannel [h1, h2] p)
      @ padHex (shadeChannel [h3, h4] p) @ padHex (shadeChannel [h5, h6] p)"
    unfolding shadeColor_def Let_def sl ..
  also have "\<dots> = CHR ''#'' # hexByte (shadeChannel [h1, h2] p)
      @ hexByte (shadeChannel [h3, h4] p) @ hexByte (shadeChannel [h5, h6] p)"
    using R(2,3) G(2,3) B(2,3) by (simp only: padHex_byte)
  finally have 1: "shadeColor color p =
           CHR ''#'' # hexByte (shade_spec (byteAt color 1) p)
                     @ hexByte (shade_spec (byteAt color 3) p)
                     @ hexByte (shade_spec (byteAt color 5) p)"
    by (simp only: R(1) G(1) B(1) bytes)
  have 2: "list_all (\<lambda>c. 0 \<le> c \<and> c \<le> 255)
               [shadeChannel (substring 1 3 color) p, shadeChannel (substring 3 5 color) p,
                shadeChannel (substring 5 7 color) p]"
    unfolding sl using R(2,3) G(2,3) B(2,3) by simp
  have 3: "shadeColor ''#808080'' 0 = ''#808080''"
    by (simp add: shadeColor_def shadeChannel_def substring_def parseInt16_def isWhiteSpace_def
      hexDigitValue_def scaleChannel_def parseIntNumber_def capChannel_def padHex_def toString_def
      natToString.simps digitChar_def)
  from 1 2 3 show ?thesis by blast
qed

text \<open>The theme colour \<open>#2d3748\<close> lightened by 20 percent, as \<open>subtleBgColor\<close> does.\<close>

theorem shadeColor_scales_and_caps_witness:
  "isHexColor ''#2d3748'' \<and> - 100 \<le> (20::int) \<and> 255 * (100 + (20::int)) < 10 ^ 23
   \<and> shadeColor ''#2d3748'' 20 = ''#364256''"
proof -
  have h: "isHexColor ''#2d3748''" by (simp add: isHexColor_def hexDigitValue_def)
  have b: "- 100 \<le> (20::int)" "255 * (100 + (20::int)) < 10 ^ 23" by simp_all
  from shadeColor_scales_and_caps[OF h b]
  have "shadeColor ''#2d3748'' 20 =
           CHR ''#'' # hexByte (shade_spec (byteAt ''#2d3748'' 1) 20)
                     @ hexByte (shade_spec (byteAt ''#2d3748'' 3) 20)
                     @ hexByte (shade_spec (byteAt ''#2d3748'' 5) 20)"
    by blast
  then have "shadeColor ''#2d3748'' 20 = ''#364256''"
    by (simp add: byteAt_def hexDigitValue_def shade_spec_def hexByte_def digitChar_def)
  with h b show ?thesis by blast
qed

lemma firstDigit_decade:
  assumes "10 ^ k \<le> y" "y < 10 ^ Suc k"
  shows "firstDigit y = \<lfloor>y / 10 ^ k\<rfloor>"
proof -
  have y: "0 < y" using assms(1) by (smt (verit) zero_less_power)
  have "10 powr real k \<le> y" using assms(1) by (simp add: powr_realpow)
  then have lo: "real k \<le> log 10 y" using y by (simp add: le_log_iff)
  have "y < 10 powr real (Suc k)" using assms(2) by (simp only: powr_realpow) 
  then have hi: "log 10 y < real (Suc k)" using y by (simp add: log_less_iff)
  have "\<lfloor>log 10 y\<rfloor> = int k"
    by (rule floor_unique) (use lo hi in auto)
  then show ?thesis by (simp add: firstDigit_def powr_realpow)
qed

lemma shadeChannel_80_huge: "shadeChannel ''80'' (10 ^ 23) = 1"
proof -
  define y :: real where "y = 128 * (100 + 10 ^ 23) / 100"
  have b: "10 ^ 23 \<le> y" "y < 10 ^ Suc 23" by (simp_all add: y_def)
  have "firstDigit y = \<lfloor>y / 10 ^ 23\<rfloor>" using b by (rule firstDigit_decade)
  also have "\<dots> = 1" by (simp add: y_def)
  finally have fd: "firstDigit y = 1" .
  have big: "10 ^ 21 \<le> y" "0 < y" by (simp_all add: y_def)
  have "parseIntNumber y = 1" using big fd by (simp add: parseIntNumber_def Let_def)
  moreover have "parseInt16 ''80'' = Some 128"
    by (simp add: parseInt16_def isWhiteSpace_def hexDigitValue_def)
  ultimately show ?thesis
    by (simp add: shadeChannel_def scaleChannel_def capChannel_def y_def)
qed

text \<open>
  Claim C8 as stated fails outside that range: below \<open>-100\<close> percent the channels are negative
  and the output is no colour; at \<open>1e23\<close> percent \<open>parseInt\<close> reads the leading digit of
  \<open>1.28e+23\<close>.
\<close>

theorem shadeColor_no_lower_cap_counterexample:
  "shadeColor ''#808080'' (- 200) = ''#-80-80-80''
   \<and> shadeChannel ''80'' (- 200) = - 128
   \<and> shadeColor ''#808080'' (10 ^ 23) = ''#010101''"
proof -
  have 1: "shadeColor ''#808080'' (- 200) = ''#-80-80-80''"
    by (simp add: shadeColor_def shadeChannel_def substring_def parseInt16_def isWhiteSpace_def
      hexDigitValue_def scaleChannel_def parseIntNumber_def capChannel_def padHex_def toString_def
      natToString.simps digitChar_def)
  have 2: "shadeChannel ''80'' (- 200) = - 128"
    by (simp add: shadeChannel_def parseInt16_def isWhiteSpace_def
      hexDigitValue_def scaleChannel_def parseIntNumber_def capChannel_def)
  have 3: "shadeColor ''#808080'' (10 ^ 23) = ''#010101''"
  proof -
    have "substring 1 3 ''#808080'' = ''80''" "substring 3 5 ''#808080'' = ''80''"
      "substring 5 7 ''#808080'' = ''80''"
      by (simp_all add: substring_def)
    then have "shadeColor ''#808080'' (10 ^ 23) = CHR ''#'' # padHex 1 @ padHex 1 @ padHex 1"
      unfolding shadeColor_def Let_def by (simp only: shadeChannel_80_huge)
    then show ?thesis
      by (simp add: padHex_def toString_def natToString.simps digitChar_def)
  qed
  from 1 2 3 show ?thesis by blast
qed

lemma gammaCorrect_byte: "gammaCorrect (of_int k / 255) = gamma_spec (of_int k / 255)"
proof -
  have "real_of_int k / 255 \<noteq> 0.03928"
  proof
    assume "real_of_int k / 255 = 0.03928"
    then have "real_of_int k * 100000 = 3928 * 255" by (simp add: field_simps)
    then have "real_of_int (k * 100000) = real_of_int (3928 * 255)" by simp
    then have e: "k * 100000 = 3928 * 255" by (simp only: of_int_eq_iff)
    have "(100000::int) dvd k * 100000" by simp
    then have "(100000::int) dvd 3928 * 255" by (simp only: e)
    then show False by simp
  qed
  then show ?thesis by (auto simp: gammaCorrect_def gamma_spec_def)
qed

lemma luminance_hex:
  assumes "isHexColor bg"
  shows "luminance bg = Some (relativeLuminance_spec bg)"
proof -
  from assms obtain h1 h2 h3 h4 h5 h6 v1 v2 v3 v4 v5 v6 where
    col: "bg = [CHR ''#'', h1, h2, h3, h4, h5, h6]" and
    h: "hexDigitValue h1 = Some v1" "hexDigitValue h2 = Some v2" "hexDigitValue h3 = Some v3"
       "hexDigitValue h4 = Some v4" "hexDigitValue h5 = Some v5" "hexDigitValue h6 = Some v6"
    by (rule isHexColor_chars)
  have bytes: "byteAt bg 1 = int (16 * v1 + v2)" "byteAt bg 3 = int (16 * v3 + v4)"
    "byteAt bg 5 = int (16 * v5 + v6)"
    using h by (simp_all add: col byteAt_def eval_nat_numeral)
  have p: "parseInt16 [h1, h2] = Some (byteAt bg 1)" "parseInt16 [h3, h4] = Some (byteAt bg 3)"
    "parseInt16 [h5, h6] = Some (byteAt bg 5)"
    using parseInt16_two_digits[OF h(1,2)] parseInt16_two_digits[OF h(3,4)]
      parseInt16_two_digits[OF h(5,6)] by (simp_all only: bytes)
  have "luminance [CHR ''#'', h1, h2, h3, h4, h5, h6] =
    Some (0.2126 * gammaCorrect (of_int (byteAt bg 1) / 255)
        + 0.7152 * gammaCorrect (of_int (byteAt bg 3) / 255)
        + 0.0722 * gammaCorrect (of_int (byteAt bg 5) / 255))"
    by (simp add: luminance_def substring_def p)
  then have "luminance bg =
    Some (0.2126 * gammaCorrect (of_int (byteAt bg 1) / 255)
        + 0.7152 * gammaCorrect (of_int (byteAt bg 3) / 255)
        + 0.0722 * gammaCorrect (of_int (byteAt bg 5) / 255))"
    by (simp only: col)
  then show ?thesis
    by (simp only: gammaCorrect_byte relativeLuminance_spec_def)
qed

text \<open>
  Claim C9. On a colour \<open>#rrggbb\<close>, \<open>getTextColor\<close> returns pure black exactly when the relative
  luminance of the colour (channels over 255, gamma-corrected piecewise, weighted
  \<open>0.2126 / 0.7152 / 0.0722\<close>) exceeds \<open>0.179\<close>, and pure white otherwise; it maps \<open>#000000\<close> to
  white and \<open>#ffffff\<close> to black. The code takes the linear segment up to and including
  \<open>0.03928\<close>, which no channel value hits.
\<close>

theorem getTextColor_threshold:
  "(isHexColor bg \<longrightarrow>
      getTextColor bg = (if relativeLuminance_spec bg > 0.179 then ''#000000'' else ''#ffffff''))
   \<and> getTextColor ''#000000'' = ''#ffffff''
   \<and> getTextColor ''#ffffff'' = ''#000000''"
proof -
  have gen: "getTextColor c = (if relativeLuminance_spec c > 0.179 then ''#000000'' else ''#ffffff'')"
    if "isHexColor c" for c
  proof -
    from that have "c \<noteq> []" by (auto simp: isHexColor_def)
    then show ?thesis using luminance_hex[OF that] by (simp add: getTextColor_def)
  qed
  have k: "isHexColor ''#000000''" "isHexColor ''#ffffff''"
    by (simp_all add: isHexColor_def hexDigitValue_def)
  have "relativeLuminance_spec ''#000000'' = 0"
    by (simp add: relativeLuminance_spec_def byteAt_def hexDigitValue_def gamma_spec_def)
  then have b: "getTextColor ''#000000'' = ''#ffffff''" using gen[OF k(1)] by simp
  have "relativeLuminance_spec ''#ffffff'' = 1"
    by (simp add: relativeLuminance_spec_def byteAt_def hexDigitValue_def gamma_spec_def)
  then have w: "getTextColor ''#ffffff'' = ''#000000''" using gen[OF k(2)] by simp
  from gen b w show ?thesis by blast
qed

theorem getTextColor_threshold_witness:
  "isHexColor ''#ffffff'' \<and> relativeLuminance_spec ''#ffffff'' > 0.179
   \<and> getTextColor ''#ffffff'' = ''#000000''"
proof -
  have k: "isHexColor ''#ffffff''" by (simp add: isHexColor_def hexDigitValue_def)
  have l: "relativeLuminance_spec ''#ffffff'' = 1"
    by (simp add: relativeLuminance_spec_def byteAt_def hexDigitValue_def gamma_spec_def)
  from getTextColor_threshold[of "''#ffffff''"] k
  have "getTextColor ''#ffffff'' = (if relativeLuminance_spec ''#ffffff'' > 0.179 then ''#000000'' else ''#ffffff'')"
    by blast
  with k l show ?thesis by simp
qed

section \<open>Properties of grouping and filtering\<close>

lemma bucket_addToHierarchy:
  "bucket (addToHierarchy acc n) y m day =
     bucket acc y m day @ (if dateKey n = Some (y, m, day) then [n] else [])"
proof (cases "timestamp n")
  case None
  then show ?thesis by (simp add: addToHierarchy_def dateKey_def)
next
  case (Some d)
  then show ?thesis
    by (auto simp: addToHierarchy_def dateKey_def bucket_def Let_def split: option.splits)
qed

lemma bucket_foldl:
  "bucket (foldl addToHierarchy acc ns) y m day =
     bucket acc y m day @ filter (\<lambda>n. dateKey n = Some (y, m, day)) ns"
  by (induction ns arbitrary: acc) (simp_all add: bucket_addToHierarchy)

lemma bucket_empty: "bucket Map.empty y m day = []"
  by (simp add: bucket_def)

lemma bucket_structuredPastNotes:
  "bucket (structuredPastNotes raw) y m day = filter (\<lambda>n. dateKey n = Some (y, m, day)) raw"
  by (simp add: structuredPastNotes_def bucket_foldl bucket_empty)

lemma foldl_skips_untimestamped:
  "foldl addToHierarchy acc (filter (\<lambda>n. timestamp n \<noteq> None) ns) = foldl addToHierarchy acc ns"
  by (induction ns arbitrary: acc) (auto simp: addToHierarchy_def)

lemma grouping_alt_eq: "grouping_alt today term ns = grouping today term ns"
proof -
  have a: "todayNotes_alt today fs = todayNotes today fs" for fs
    by (auto simp: todayNotes_alt_def todayNotes_def noteDateString_def intro: filter_cong)
  have b: "pastNotesRaw_alt today fs = filter (\<lambda>n. timestamp n \<noteq> None) (pastNotesRaw today fs)" for fs
    by (auto simp: pastNotesRaw_alt_def pastNotesRaw_def intro: filter_cong)
  show ?thesis
    unfolding grouping_alt_def grouping_def structuredPastNotes_def a b foldl_skips_untimestamped ..
qed

lemma count_list_filter: "count_list (filter P xs) x = (if P x then count_list xs x else 0)"
  by (induction xs) auto

text \<open>
  Claim C1. Take a note that passes the search filter and has a timestamp. If its date
  string is today's, it is in the today list and in no bucket of the hierarchy; otherwise it
  is not in the today list, it is in the bucket of its own year, month name and day, and in
  no other bucket. Either way it occurs there as often as among the filtered notes, so once
  for a collection without repeated notes. The other copies of the component derive the
  same grouping.
\<close>

theorem grouping_partition:
  assumes "n \<in> set (filteredNotes term ns)" and "timestamp n = Some d"
  shows "(dateString d = today \<longrightarrow>
            n \<in> set (fst (grouping today term ns))
          \<and> (\<forall>y m day. n \<notin> set (bucket (snd (grouping today term ns)) y m day))
          \<and> count_list (fst (grouping today term ns)) n = count_list (filteredNotes term ns) n)
       \<and> (dateString d \<noteq> today \<longrightarrow>
            n \<notin> set (fst (grouping today term ns))
          \<and> n \<in> set (bucket (snd (grouping today term ns)) (fullYear d) (monthLong d) (dayOfMonth d))
          \<and> (\<forall>y m day. n \<in> set (bucket (snd (grouping today term ns)) y m day) \<longrightarrow>
                y = fullYear d \<and> m = monthLong d \<and> day = dayOfMonth d)
          \<and> count_list (bucket (snd (grouping today term ns)) (fullYear d) (monthLong d) (dayOfMonth d)) n
              = count_list (filteredNotes term ns) n)
       \<and> grouping_alt today term ns = grouping today term ns"
  using assms
  by (auto simp: grouping_alt_eq grouping_def todayNotes_def pastNotesRaw_def
      bucket_structuredPastNotes noteDateString_def dateKey_def count_list_filter)

text \<open>
  Claim C3. A note without a timestamp is in neither the today list nor any bucket of the
  hierarchy, for every collection and search term and in every copy of the component; the
  reducer hands the accumulator back untouched on such a note, so nothing is thrown.
\<close>

theorem untimestamped_dropped:
  assumes "timestamp n = None"
  shows "n \<notin> set (fst (grouping today term ns))
       \<and> (\<forall>y m day. n \<notin> set (bucket (snd (grouping today term ns)) y m day))
       \<and> n \<notin> set (fst (grouping_alt today term ns))
       \<and> (\<forall>y m day. n \<notin> set (bucket (snd (grouping_alt today term ns)) y m day))
       \<and> addToHierarchy acc n = acc"
  using assms
  by (auto simp: grouping_alt_eq grouping_def todayNotes_def pastNotesRaw_def
      bucket_structuredPastNotes noteDateString_def dateKey_def addToHierarchy_def)

text \<open>
  Conversely, the today list and the buckets hold filtered notes with a timestamp only.
\<close>

lemma grouping_holds_filtered_only:
  assumes "n \<in> set (fst (grouping today term ns))
         \<or> n \<in> set (bucket (snd (grouping today term ns)) y m day)"
  shows "n \<in> set (filteredNotes term ns) \<and> timestamp n \<noteq> None"
  using assms
  by (auto simp: grouping_def todayNotes_def pastNotesRaw_def bucket_structuredPastNotes
      noteDateString_def dateKey_def)

lemmas sample_defs = sampleNotes_def noteToday_def noteJan_def noteNov_def notePending_def
  sampleToday_def sampleJan20_def sampleNov05_def

lemma filteredNotes_empty_term: "filteredNotes [] ns = ns"
proof -
  have "includes_str s []" for s by (cases s) simp_all
  then show ?thesis by (simp add: filteredNotes_def textMatches_def toLowerCase_def)
qed

theorem grouping_partition_witness:
  "noteJan \<in> set (filteredNotes [] sampleNotes)
   \<and> timestamp noteJan = Some sampleJan20
   \<and> dateString sampleJan20 \<noteq> dateString sampleToday
   \<and> fst (grouping (dateString sampleToday) [] sampleNotes) = [noteToday]
   \<and> noteJan \<in> set (bucket (snd (grouping (dateString sampleToday) [] sampleNotes)) 2024 ''January'' 20)
   \<and> noteJan \<notin> set (bucket (snd (grouping (dateString sampleToday) [] sampleNotes)) 2023 ''November'' 5)"
proof -
  let ?h = "snd (grouping (dateString sampleToday) [] sampleNotes)"
  have h1: "noteJan \<in> set (filteredNotes [] sampleNotes)"
    by (simp add: filteredNotes_empty_term sampleNotes_def)
  have h2: "timestamp noteJan = Some sampleJan20" by (simp add: noteJan_def)
  have h3: "dateString sampleJan20 \<noteq> dateString sampleToday" by (simp add: sample_defs)
  have t: "fst (grouping (dateString sampleToday) [] sampleNotes) = [noteToday]"
    by (simp add: grouping_def filteredNotes_empty_term todayNotes_def noteDateString_def sample_defs)
  note gp = grouping_partition[OF h1 h2, of "dateString sampleToday"]
  from gp h3 have a: "noteJan \<in> set (bucket ?h (fullYear sampleJan20) (monthLong sampleJan20) (dayOfMonth sampleJan20))"
    by simp
  from gp h3 have b: "noteJan \<in> set (bucket ?h 2023 ''November'' 5) \<longrightarrow>
      2023 = fullYear sampleJan20 \<and> ''November'' = monthLong sampleJan20 \<and> 5 = dayOfMonth sampleJan20"
    by simp
  from a have a': "noteJan \<in> set (bucket ?h 2024 ''January'' 20)" by (simp add: sampleJan20_def)
  from b have b': "noteJan \<notin> set (bucket ?h 2023 ''November'' 5)" by (simp add: sampleJan20_def)
  from h1 h2 h3 t a' b' show ?thesis by (intro conjI)
qed

theorem untimestamped_dropped_witness:
  "timestamp notePending = None
   \<and> notePending \<in> set (pastNotesRaw (dateString sampleToday) (filteredNotes [] sampleNotes))
   \<and> notePending \<notin> set (fst (grouping (dateString sampleToday) [] sampleNotes))
   \<and> notePending \<notin> set (bucket (snd (grouping (dateString sampleToday) [] sampleNotes)) 2024 ''January'' 20)
   \<and> bucket (snd (grouping (dateString sampleToday) [] sampleNotes)) 2023 ''November'' 5 = [noteNov]"
proof -
  have h: "timestamp notePending = None" by (simp add: notePending_def)
  have r: "notePending \<in> set (pastNotesRaw (dateString sampleToday) (filteredNotes [] sampleNotes))"
    by (simp add: filteredNotes_empty_term pastNotesRaw_def noteDateString_def sample_defs)
  have b: "bucket (snd (grouping (dateString sampleToday) [] sampleNotes)) 2023 ''November'' 5 = [noteNov]"
    by (simp add: grouping_def filteredNotes_empty_term pastNotesRaw_def noteDateString_def
        bucket_structuredPastNotes dateKey_def sample_defs)
  note ud = untimestamped_dropped[OF h, of "dateString sampleToday" "[]" sampleNotes]
  from ud have t: "notePending \<notin> set (fst (grouping (dateString sampleToday) [] sampleNotes))"
    by (rule conjunct1)
  from ud have "\<forall>y m day. notePending \<notin> set (bucket (snd (grouping (dateString sampleToday) [] sampleNotes)) y m day)"
    by (rule conjunct2[THEN conjunct1])
  then have p: "notePending \<notin> set (bucket (snd (grouping (dateString sampleToday) [] sampleNotes)) 2024 ''January'' 20)"
    by simp
  from h r t p b show ?thesis by (intro conjI)
qed

section \<open>Properties of the expansion state\<close>

lemma expandMatches_result:
  "expandMatches ns acc = Inr r \<Longrightarrow> r k = (if k \<in> matchKeys ns then Some True else acc k)"
proof (induction ns arbitrary: acc)
  case Nil
  then show ?case by (simp add: matchKeys_def)
next
  case (Cons n ns)
  then show ?case
    by (cases "timestamp n") (auto simp: matchKeys_def split: if_splits)
qed

lemma searchExpansionEffect_result:
  assumes "searchExpansionEffect today s = Inr s'" and "trim (searchTerm s) \<noteq> []"
  shows "expandedItems s' k =
           (if k \<in> matchKeys (searchMatches today (searchTerm s) (notesState s)) then Some True
            else expandedItems s k)"
proof -
  let ?ms = "searchMatches today (searchTerm s) (notesState s)"
  from assms obtain r where r: "expandMatches ?ms Map.empty = Inr r"
    and e: "expandedItems s' = expandedItems s ++ r"
    by (auto simp: searchExpansionEffect_def Let_def split: sum.splits if_splits)
  from expandMatches_result[OF r] have "r k = (if k \<in> matchKeys ?ms then Some True else None)" by simp
  with e show ?thesis by (simp add: map_add_def)
qed

lemma searchExpansionEffect_keeps:
  assumes "searchExpansionEffect today s = Inr s'" and "expandedItems s k = Some True"
  shows "expandedItems s' k = Some True"
proof (cases "trim (searchTerm s) = []")
  case True
  with assms show ?thesis by (simp add: searchExpansionEffect_def)
next
  case False
  from searchExpansionEffect_result[OF assms(1) False, of k] assms(2) show ?thesis by simp
qed

lemma searchExpansionEffect_throw:
  assumes "searchExpansionEffect today s = Inl (e, s1)"
  shows "expandedItems s1 = expandedItems s"
  using assms by (auto simp: searchExpansionEffect_def Let_def split: sum.splits if_splits)

lemma searchSession_keeps:
  "searchSession today ts s = Inr s' \<Longrightarrow> expandedItems s k = Some True \<Longrightarrow> expandedItems s' k = Some True"
proof (induction ts arbitrary: s)
  case Nil
  then show ?case by simp
next
  case (Cons t ts)
  from Cons.prems(1) obtain s1 where 1: "searchExpansionEffect today (s\<lparr>searchTerm := t\<rparr>) = Inr s1"
    and 2: "searchSession today ts s1 = Inr s'"
    by (auto split: sum.splits)
  from searchExpansionEffect_keeps[OF 1] Cons.prems(2) have "expandedItems s1 k = Some True" by simp
  with Cons.IH[OF 2] show ?case .
qed

text \<open>
  In \<open>src/App.jsx\<close> the effect merges: after a run for a non-empty search term every key is
  true if a matched note contributes it and keeps its former value otherwise; a run that
  throws leaves the mapping as it was; and over any sequence of search terms a key that
  was true stays true.
\<close>

theorem searchExpansion_monotone:
  assumes "trim (searchTerm s) \<noteq> []"
  shows "(searchExpansionEffect today s = Inr s' \<longrightarrow>
            (\<forall>k. expandedItems s' k =
                   (if k \<in> matchKeys (searchMatches today (searchTerm s) (notesState s)) then Some True
                    else expandedItems s k)))
       \<and> (searchExpansionEffect today s = Inl (e, s1) \<longrightarrow> expandedItems s1 = expandedItems s)
       \<and> (searchSession today ts s = Inr s'' \<longrightarrow>
            (\<forall>k. expandedItems s k = Some True \<longrightarrow> expandedItems s'' k = Some True))"
  using assms searchExpansionEffect_result searchExpansionEffect_throw searchSession_keeps
  by blast

text \<open>
  Claim C2 on the other copies of the component, which replace the mapping instead of
  merging into it. The user has opened the year 2023 and types \<open>new year\<close>, which matches the
  note of 20 January 2024 only: the key \<open>2023\<close> was true before the update and is gone after
  it, while \<open>src/App.jsx\<close> keeps it on the same input.
\<close>

theorem searchExpansionEffect_alt_collapses:
  "expandedItems toggled2023 ''2023'' = Some True
   \<and> searchExpansionEffect_alt (dateString sampleToday) toggled2023 =
       Inr (toggled2023\<lparr>showPastNotes := True,
                        expandedItems := [''2024'' \<mapsto> True, ''2024-January'' \<mapsto> True]\<rparr>)
   \<and> expandedItems (projr (searchExpansionEffect_alt (dateString sampleToday) toggled2023)) ''2023'' = None
   \<and> searchExpansionEffect (dateString sampleToday) toggled2023 =
       Inr (toggled2023\<lparr>showPastNotes := True,
                        expandedItems := [''2023'' \<mapsto> True, ''2024'' \<mapsto> True, ''2024-January'' \<mapsto> True]\<rparr>)"
proof -
  have t: "toggled2023 = sampleState\<lparr>searchTerm := ''new year'', expandedItems := [''2023'' \<mapsto> True]\<rparr>"
    by (simp add: toggled2023_def toggleExpand_def sampleState_def)
  have tr: "trim ''new year'' = ''new year''" by (simp add: trim_def isWhiteSpace_def)
  have tm: "textMatches ''new year'' noteJan" "\<not> textMatches ''new year'' noteToday"
    "\<not> textMatches ''new year'' noteNov" "\<not> textMatches ''new year'' notePending"
    by (simp_all add: textMatches_def toLowerCase_def lowerChar_def sample_defs)
  have ds: "noteDateString noteJan \<noteq> Some (dateString sampleToday)" "timestamp noteJan = Some sampleJan20"
    by (simp_all add: noteDateString_def sample_defs)
  have m: "searchMatches_alt (dateString sampleToday) ''new year'' sampleNotes = [noteJan]"
    by (simp add: searchMatches_alt_def sampleNotes_def tm ds)
  have m': "searchMatches (dateString sampleToday) ''new year'' sampleNotes = [noteJan]"
    by (simp add: searchMatches_def sampleNotes_def tm ds)
  have k: "expandMatches [noteJan] Map.empty = Inr [''2024'' \<mapsto> True, ''2024-January'' \<mapsto> True]"
    by (simp add: ds sampleJan20_def yearKey_def monthKey_def toString_def natToString.simps digitChar_def)
  have 1: "expandedItems toggled2023 ''2023'' = Some True" by (simp add: t)
  have 2: "searchExpansionEffect_alt (dateString sampleToday) toggled2023 =
       Inr (toggled2023\<lparr>showPastNotes := True,
                        expandedItems := [''2024'' \<mapsto> True, ''2024-January'' \<mapsto> True]\<rparr>)"
    by (simp add: t searchExpansionEffect_alt_def sampleState_def tr m k del: expandMatches.simps)
  have 3: "searchExpansionEffect (dateString sampleToday) toggled2023 =
       Inr (toggled2023\<lparr>showPastNotes := True,
                        expandedItems := [''2023'' \<mapsto> True, ''2024'' \<mapsto> True, ''2024-January'' \<mapsto> True]\<rparr>)"
    by (simp add: t searchExpansionEffect_def sampleState_def tr m' k del: expandMatches.simps)
  from 2 have 4: "expandedItems (projr (searchExpansionEffect_alt (dateString sampleToday) toggled2023)) ''2023'' = None"
    by simp
  from 1 2 4 3 show ?thesis by (intro conjI)
qed

text \<open>
  The effect of \<open>src/App.jsx\<close> lets a note without a timestamp into \<open>matches\<close> and then reads
  its timestamp: a search for \<open>just\<close>, which matches the pending sample note, throws, and the
  mapping stays as it was.
\<close>

lemma searchExpansionEffect_throws_on_pending:
  "searchExpansionEffect (dateString sampleToday) (sampleState\<lparr>searchTerm := ''just''\<rparr>) =
     Inl (TypeError, sampleState\<lparr>searchTerm := ''just'', showPastNotes := True\<rparr>)"
proof -
  have tr: "trim ''just'' = ''just''" by (simp add: trim_def isWhiteSpace_def)
  have tm: "textMatches ''just'' notePending" "\<not> textMatches ''just'' noteToday"
    "\<not> textMatches ''just'' noteNov" "\<not> textMatches ''just'' noteJan"
    by (simp_all add: textMatches_def toLowerCase_def lowerChar_def sample_defs
        char_of_def bit_Suc_0_iff)
  have ds: "noteDateString notePending \<noteq> Some (dateString sampleToday)" "timestamp notePending = None"
    by (simp_all add: noteDateString_def sample_defs)
  have m: "searchMatches (dateString sampleToday) ''just'' sampleNotes = [notePending]"
    by (simp add: searchMatches_def sampleNotes_def tm ds)
  have k: "expandMatches [notePending] Map.empty = Inl TypeError" by (simp add: ds)
  show ?thesis
    by (simp add: searchExpansionEffect_def sampleState_def tr m k del: expandMatches.simps)
qed

section \<open>Properties of note management\<close>

text \<open>
  The string primitives on code units beyond ASCII: \<open>trim\<close> cuts a no-break space, and
  \<open>toLowerCase\<close> maps \<open>U+00C9\<close> to \<open>U+00E9\<close> and leaves the multiplication sign alone.
\<close>

lemma trim_no_break_space:
  "trim [char_of (160::nat)] = []
   \<and> trim (char_of (160::nat) # ''hello'' @ [char_of (160::nat)]) = ''hello''"
  by (simp add: trim_def isWhiteSpace_def)

lemma toLowerCase_latin1:
  "toLowerCase [char_of (201::nat), CHR ''T'', char_of (215::nat)]
     = [char_of (233::nat), CHR ''t'', char_of (215::nat)]"
  by (simp add: toLowerCase_def lowerChar_def char_of_def bit_Suc_0_iff)

text \<open>
  Claim C6. Without a signed-in user, or for a text whose trimmed form is empty (white space
  only, a no-break space included), \<open>addNote\<close> returns the state as it was: no document is
  added and no error field is set. For a
  signed-in user and a text with a non-empty trimmed form it adds one document, holding the
  trimmed text and the creation timestamp, under the generated id, and changes nothing
  else; when that id is new, the collection grows by exactly this document.
\<close>

theorem addNote_guarded:
  "((user s = None \<or> trim txt = []) \<longrightarrow> addNote env newId txt s = s)
   \<and> (user s = Some uid \<and> trim txt \<noteq> [] \<longrightarrow>
        addNote env newId txt s =
          s\<lparr>db := (db s)((uid, newId) \<mapsto>
                 \<lparr>doc_text = trim txt, doc_timestamp = Some (Timestamp_now env)\<rparr>)\<rparr>
      \<and> firestoreError (addNote env newId txt s) = firestoreError s
      \<and> micError (addNote env newId txt s) = micError s
      \<and> ((uid, newId) \<notin> dom (db s) \<longrightarrow>
            dom (db (addNote env newId txt s)) = insert (uid, newId) (dom (db s))
          \<and> (\<forall>p \<in> dom (db s). db (addNote env newId txt s) p = db s p)))"
  by (auto simp: addNote_def addDoc_def split: option.splits)

theorem addNote_guarded_witness:
  "user sampleState = Some ''u1'' \<and> trim ''  hello  '' = ''hello'' \<and> trim ''   '' = []
   \<and> (''u1'', ''e'') \<notin> dom (db sampleState)
   \<and> addNote sampleClocks ''e'' ''   '' sampleState = sampleState
   \<and> trim [char_of (160::nat)] = []
   \<and> addNote sampleClocks ''e'' [char_of (160::nat)] sampleState = sampleState
   \<and> db (addNote sampleClocks ''e'' ''  hello  '' sampleState) (''u1'', ''e'') =
       Some \<lparr>doc_text = ''hello'', doc_timestamp = Some sampleToday\<rparr>
   \<and> dom (db (addNote sampleClocks ''e'' ''  hello  '' sampleState)) =
       insert (''u1'', ''e'') (dom (db sampleState))"
proof -
  have u: "user sampleState = Some ''u1''" by (simp add: sampleState_def)
  have t1: "trim ''  hello  '' = ''hello''" by (simp add: trim_def isWhiteSpace_def)
  have t2: "trim ''   '' = []" by (simp add: trim_def isWhiteSpace_def)
  have f: "(''u1'', ''e'') \<notin> dom (db sampleState)"
    by (simp add: sampleState_def sampleStore_def)
  note g1 = addNote_guarded[of sampleState "''   ''" sampleClocks "''e''" "''u1''"]
  note g2 = addNote_guarded[of sampleState "''  hello  ''" sampleClocks "''e''" "''u1''"]
  from g1 t2 have a: "addNote sampleClocks ''e'' ''   '' sampleState = sampleState" by simp
  have t3: "trim [char_of (160::nat)] = []" by (simp add: trim_def isWhiteSpace_def)
  note g3 = addNote_guarded[of sampleState "[char_of (160::nat)]" sampleClocks "''e''" "''u1''"]
  from g3 t3 have a3: "addNote sampleClocks ''e'' [char_of (160::nat)] sampleState = sampleState"
    by simp
  from g2 u t1 have b: "addNote sampleClocks ''e'' ''  hello  '' sampleState =
          sampleState\<lparr>db := (db sampleState)((''u1'', ''e'') \<mapsto>
                 \<lparr>doc_text = ''hello'', doc_timestamp = Some (Timestamp_now sampleClocks)\<rparr>)\<rparr>"
    by simp
  then have c: "db (addNote sampleClocks ''e'' ''  hello  '' sampleState) (''u1'', ''e'') =
       Some \<lparr>doc_text = ''hello'', doc_timestamp = Some sampleToday\<rparr>"
    by (simp add: Timestamp_now_def sampleClocks_def)
  from g2 u t1 f have d: "dom (db (addNote sampleClocks ''e'' ''  hello  '' sampleState)) =
       insert (''u1'', ''e'') (dom (db sampleState))"
    by simp
  from u t1 t2 f a t3 a3 c d show ?thesis by (intro conjI)
qed

text \<open>
  Claim C4, as the code has it. The timestamp that \<open>addNote\<close> writes is the reading of the
  client's clock at the call, \<open>Timestamp.now()\<close>; the server's clock has no part in it.
\<close>

theorem addNote_stamps_client_clock:
  assumes "user s = Some uid" and "trim txt \<noteq> []"
  shows "db (addNote env newId txt s) (uid, newId) =
           Some \<lparr>doc_text = trim txt, doc_timestamp = Some (clientClock env)\<rparr>
       \<and> addNote (env\<lparr>serverClock := t\<rparr>) newId txt s = addNote env newId txt s"
  using assms by (simp add: addNote_def addDoc_def Timestamp_now_def)

theorem addNote_stamps_client_clock_witness:
  "user sampleState = Some ''u1'' \<and> trim ''hello'' \<noteq> []
   \<and> db (addNote sampleClocks ''e'' ''hello'' sampleState) (''u1'', ''e'') =
       Some \<lparr>doc_text = ''hello'', doc_timestamp = Some sampleToday\<rparr>"
proof -
  have u: "user sampleState = Some ''u1''" by (simp add: sampleState_def)
  have t: "trim ''hello'' = ''hello''" by (simp add: trim_def isWhiteSpace_def)
  then have t': "trim ''hello'' \<noteq> []" by simp
  from addNote_stamps_client_clock[OF u t', of sampleClocks "''e''"]
  have "db (addNote sampleClocks ''e'' ''hello'' sampleState) (''u1'', ''e'') =
           Some \<lparr>doc_text = trim ''hello'', doc_timestamp = Some (clientClock sampleClocks)\<rparr>"
    by (rule conjunct1)
  then have c: "db (addNote sampleClocks ''e'' ''hello'' sampleState) (''u1'', ''e'') =
       Some \<lparr>doc_text = ''hello'', doc_timestamp = Some sampleToday\<rparr>"
    by (simp add: t sampleClocks_def)
  from u t' c show ?thesis by (intro conjI)
qed

text \<open>
  Claim C4 as stated fails: with a client clock on 15 July 2025 and a server clock on 20
  January 2024, the stored timestamp is the client's, not the server's, and it follows the
  client clock when that is set to another day.
\<close>

theorem addNote_server_time_counterexample:
  "db (addNote sampleClocks ''e'' ''hello'' sampleState) (''u1'', ''e'') =
     Some \<lparr>doc_text = ''hello'', doc_timestamp = Some sampleToday\<rparr>
   \<and> clientClock sampleClocks = sampleToday
   \<and> serverClock sampleClocks = sampleJan20
   \<and> sampleToday \<noteq> sampleJan20
   \<and> db (addNote (sampleClocks\<lparr>clientClock := sampleNov05\<rparr>) ''e'' ''hello'' sampleState) (''u1'', ''e'') =
     Some \<lparr>doc_text = ''hello'', doc_timestamp = Some sampleNov05\<rparr>"
proof -
  have t: "trim ''hello'' = ''hello''" by (simp add: trim_def isWhiteSpace_def)
  have 1: "db (addNote sampleClocks ''e'' ''hello'' sampleState) (''u1'', ''e'') =
     Some \<lparr>doc_text = ''hello'', doc_timestamp = Some sampleToday\<rparr>"
    by (simp add: addNote_def addDoc_def Timestamp_now_def sampleState_def sampleClocks_def t)
  have 2: "clientClock sampleClocks = sampleToday" "serverClock sampleClocks = sampleJan20"
    by (simp_all add: sampleClocks_def)
  have 3: "sampleToday \<noteq> sampleJan20" by (simp add: sampleToday_def sampleJan20_def)
  have 4: "db (addNote (sampleClocks\<lparr>clientClock := sampleNov05\<rparr>) ''e'' ''hello'' sampleState) (''u1'', ''e'') =
     Some \<lparr>doc_text = ''hello'', doc_timestamp = Some sampleNov05\<rparr>"
    by (simp add: addNote_def addDoc_def Timestamp_now_def sampleState_def t)
  from 1 2 3 4 show ?thesis by (intro conjI)
qed

text \<open>
  Claim C7. A saved edit leaves every document in place, with its timestamp, and changes no
  document but the edited one, whose text becomes the edit text; a rejected update changes
  nothing. This holds for \<open>saveEdit\<close> of \<open>src/App.jsx\<close> and of the other copies.
\<close>

theorem saveEdit_frame:
  "(saveEdit s = Inr s' \<longrightarrow>
        (db s' p = None \<longleftrightarrow> db s p = None)
      \<and> map_option doc_timestamp (db s' p) = map_option doc_timestamp (db s p)
      \<and> ((\<forall>uid n. user s = Some uid \<longrightarrow> editingNote s = Some n \<longrightarrow> p \<noteq> (uid, note_id n)) \<longrightarrow>
            db s' p = db s p)
      \<and> (user s = Some u \<and> editingNote s = Some e \<longrightarrow>
            map_option doc_text (db s' (u, note_id e)) = Some (editText s)))
   \<and> (saveEdit s = Inl err \<longrightarrow>
        err = NotFound \<and> (\<exists>uid n. user s = Some uid \<and> editingNote s = Some n \<and> db s (uid, note_id n) = None))
   \<and> (db (saveEdit_alt s) p = None \<longleftrightarrow> db s p = None)
   \<and> map_option doc_timestamp (db (saveEdit_alt s) p) = map_option doc_timestamp (db s p)
   \<and> ((\<forall>uid n. user s = Some uid \<longrightarrow> editingNote s = Some n \<longrightarrow> p \<noteq> (uid, note_id n)) \<longrightarrow>
         db (saveEdit_alt s) p = db s p)
   \<and> (user s = Some u \<and> editingNote s = Some e \<and> db s (u, note_id e) \<noteq> None \<longrightarrow>
         map_option doc_text (db (saveEdit_alt s) (u, note_id e)) = Some (editText s))"
  by (auto simp: saveEdit_def saveEdit_alt_def updateDoc_def split: option.splits sum.splits)

theorem saveEdit_frame_witness:
  "user editingState = Some ''u1'' \<and> editingNote editingState = Some noteJan
   \<and> db editingState (''u1'', ''b'') = Some \<lparr>doc_text = note_text noteJan, doc_timestamp = Some sampleJan20\<rparr>
   \<and> saveEdit editingState =
       Inr (sampleState\<lparr>db := sampleStore((''u1'', ''b'') \<mapsto>
                              \<lparr>doc_text = ''Edited text'', doc_timestamp = Some sampleJan20\<rparr>)\<rparr>)
   \<and> map_option doc_timestamp (db (saveEdit_alt editingState) (''u1'', ''b'')) = Some (Some sampleJan20)
   \<and> map_option doc_text (db (saveEdit_alt editingState) (''u1'', ''b'')) = Some ''Edited text''
   \<and> db (saveEdit_alt editingState) (''u1'', ''c'') = db editingState (''u1'', ''c'')"
proof -
  have e: "editingState = sampleState\<lparr>editingNote := Some noteJan, editText := ''Edited text''\<rparr>"
    by (simp add: editingState_def startEditing_def)
  have u: "user editingState = Some ''u1''" by (simp add: e sampleState_def)
  have n: "editingNote editingState = Some noteJan" by (simp add: e)
  have i: "note_id noteJan = ''b''" by (simp add: noteJan_def)
  have d: "db editingState (''u1'', ''b'') = Some \<lparr>doc_text = note_text noteJan, doc_timestamp = Some sampleJan20\<rparr>"
    by (simp add: e sampleState_def sampleStore_def docOf_def noteJan_def)
  have c: "db editingState (''u1'', ''c'') \<noteq> None"
    by (simp add: e sampleState_def sampleStore_def)
  have s: "saveEdit editingState =
       Inr (sampleState\<lparr>db := sampleStore((''u1'', ''b'') \<mapsto>
                              \<lparr>doc_text = ''Edited text'', doc_timestamp = Some sampleJan20\<rparr>)\<rparr>)"
    by (simp add: saveEdit_def updateDoc_def e sampleState_def sampleStore_def docOf_def noteJan_def)
  note f = saveEdit_frame[of editingState _ "(''u1'', ''b'')" "''u1''" noteJan]
  from f d have t: "map_option doc_timestamp (db (saveEdit_alt editingState) (''u1'', ''b'')) = Some (Some sampleJan20)"
    by simp
  from f u n d i have x: "map_option doc_text (db (saveEdit_alt editingState) (''u1'', ''b'')) = Some ''Edited text''"
    by (simp add: e)
  note g = saveEdit_frame[of editingState _ "(''u1'', ''c'')" "''u1''" noteJan]
  from g u n i have o: "db (saveEdit_alt editingState) (''u1'', ''c'') = db editingState (''u1'', ''c'')"
    by simp
  from u n d s t x o show ?thesis by (intro conjI)
qed

section \<open>Properties of recording\<close>

text \<open>
  Claim C5, as the code has it. \<open>handleRecordStart\<close> returns the state as it was, and asks the
  speech capability for nothing, when a speech error is recorded or the recognition handle
  is not ready. In every other state, also one in which a recording is active, it empties
  the transcript buffer, sets the recording flag and asks the capability to start.
\<close>

theorem handleRecordStart_guards:
  "((micError s \<noteq> [] \<or> recognitionRef s = None) \<longrightarrow> handleRecordStart s = s)
   \<and> (micError s = [] \<and> recognitionRef s \<noteq> None \<longrightarrow>
        handleRecordStart s =
          s\<lparr>transcriptRef := [], isRecording := True, speechCalls := speechCalls s @ [Start]\<rparr>)"
  by (simp add: handleRecordStart_def)

theorem handleRecordStart_guards_witness:
  "micError (sampleState\<lparr>micError := ''Speech error: not-allowed''\<rparr>) \<noteq> []
   \<and> handleRecordStart (sampleState\<lparr>micError := ''Speech error: not-allowed''\<rparr>)
       = sampleState\<lparr>micError := ''Speech error: not-allowed''\<rparr>
   \<and> recognitionRef (sampleState\<lparr>recognitionRef := None\<rparr>) = None
   \<and> handleRecordStart (sampleState\<lparr>recognitionRef := None\<rparr>) = sampleState\<lparr>recognitionRef := None\<rparr>
   \<and> micError sampleState = [] \<and> recognitionRef sampleState \<noteq> None
   \<and> speechCalls (handleRecordStart sampleState) = [Start]"
proof -
  let ?e = "sampleState\<lparr>micError := ''Speech error: not-allowed''\<rparr>"
  let ?n = "sampleState\<lparr>recognitionRef := None\<rparr>"
  have 1: "micError ?e \<noteq> []" by simp
  have 2: "recognitionRef ?n = None" by simp
  have 3: "micError sampleState = []" "recognitionRef sampleState \<noteq> None"
    by (simp_all add: sampleState_def)
  from handleRecordStart_guards[of ?e] 1 have a: "handleRecordStart ?e = ?e" by simp
  from handleRecordStart_guards[of ?n] 2 have b: "handleRecordStart ?n = ?n" by simp
  from handleRecordStart_guards[of sampleState] 3
  have "handleRecordStart sampleState =
          sampleState\<lparr>transcriptRef := [], isRecording := True, speechCalls := speechCalls sampleState @ [Start]\<rparr>"
    by simp
  then have c: "speechCalls (handleRecordStart sampleState) = [Start]"
    by (simp add: sampleState_def)
  from 1 a 2 b 3 c show ?thesis by (intro conjI)
qed

text \<open>
  Claim C5 as stated fails for an active recording: with the button held and a transcript
  already received, a second gesture start (a touch start followed by a mouse down) drops
  the transcript and asks the capability to start again.
\<close>

theorem handleRecordStart_active_counterexample:
  "isRecording recordingState \<and> micError recordingState = [] \<and> recognitionRef recordingState \<noteq> None
   \<and> transcriptRef recordingState = ''hello''
   \<and> speechCalls recordingState = [Start]
   \<and> transcriptRef (handleRecordStart recordingState) = []
   \<and> speechCalls (handleRecordStart recordingState) = [Start, Start]"
  by (simp add: recordingState_def handleRecordStart_def sampleState_def)

section \<open>Properties of batch deletion\<close>

lemma selected_Year: "selected (Year y) n \<longleftrightarrow> (\<exists>d. timestamp n = Some d \<and> fullYear d = y)"
  by (simp add: selected_def split: option.splits)

lemma selected_Month:
  "selected (Month y m) n \<longleftrightarrow> (\<exists>d. timestamp n = Some d \<and> fullYear d = y \<and> monthLong d = m)"
  by (simp add: selected_def split: option.splits)

lemma snapshotOf_lookup:
  assumes "snapshotOf uid st ns" and "n \<in> set ns"
  shows "st (uid, note_id n) = Some (docOf n)"
  using assms by (auto simp: snapshotOf_def list_all_iff)

lemma snapshotOf_same_id:
  assumes "snapshotOf uid st ns" and "n \<in> set ns" and "n' \<in> set ns" and "note_id n = note_id n'"
  shows "n = n'"
proof -
  from assms(1) have "distinct (map note_id ns)" by (simp add: snapshotOf_def)
  then have "inj_on note_id (set ns)" by (simp add: distinct_map)
  with assms(2-4) show ?thesis by (auto dest: inj_onD)
qed

lemma handleConfirmDelete_db:
  assumes "user s = Some uid" and "showDeleteConfirm s = Some sel" and "sel \<noteq> All"
  shows "db (handleConfirmDelete s) =
           batchDelete (map (\<lambda>n. (uid, note_id n)) (filter (selected sel) (notesState s))) (db s)"
proof (cases "filter (selected sel) (notesState s) = []")
  case True
  then have "batchDelete (map (\<lambda>n. (uid, note_id n)) (filter (selected sel) (notesState s))) (db s) = db s"
    by (simp add: batchDelete_def)
  with True assms show ?thesis by (simp add: handleConfirmDelete_def)
next
  case False
  with assms show ?thesis by (simp add: handleConfirmDelete_def Let_def)
qed

text \<open>
  Claim C10. Let a user be signed in, the notes be the snapshot of the user's collection,
  and the confirmed selection be a year \<open>y\<close>, or a year \<open>y\<close> and a month name \<open>m\<close>. Then a note
  of the collection is deleted exactly when its timestamp has that year (and that month
  name); every other note, so every note without a timestamp, keeps its document, and so
  does every document outside the batch. When some note matches, one batch of exactly the
  matching notes' documents is committed; when none does, no batch is committed and the
  store is unchanged.
\<close>

theorem handleConfirmDelete_selection:
  assumes "user s = Some uid" and "showDeleteConfirm s = Some sel"
    and "sel = Year y \<or> sel = Month y m"
    and "snapshotOf uid (db s) (notesState s)"
  shows "(\<forall>n \<in> set (notesState s).
            db (handleConfirmDelete s) (uid, note_id n) = (if selected sel n then None else Some (docOf n)))
       \<and> (\<forall>p. p \<notin> (\<lambda>n. (uid, note_id n)) ` {n \<in> set (notesState s). selected sel n} \<longrightarrow>
                db (handleConfirmDelete s) p = db s p)
       \<and> (\<forall>n. selected sel n \<longleftrightarrow>
                (\<exists>d. timestamp n = Some d \<and> fullYear d = y \<and> (sel = Month y m \<longrightarrow> monthLong d = m)))
       \<and> committed (handleConfirmDelete s) =
           (if filter (selected sel) (notesState s) = [] then committed s
            else committed s @ [map (\<lambda>n. (uid, note_id n)) (filter (selected sel) (notesState s))])
       \<and> (filter (selected sel) (notesState s) = [] \<longrightarrow> db (handleConfirmDelete s) = db s)"
proof -
  from assms(3) have na: "sel \<noteq> All" by auto
  note dbeq = handleConfirmDelete_db[OF assms(1,2) na]
  have 1: "\<forall>n \<in> set (notesState s).
            db (handleConfirmDelete s) (uid, note_id n) = (if selected sel n then None else Some (docOf n))"
  proof
    fix n assume n: "n \<in> set (notesState s)"
    show "db (handleConfirmDelete s) (uid, note_id n) = (if selected sel n then None else Some (docOf n))"
    proof (cases "selected sel n")
      case True
      with n show ?thesis by (auto simp: dbeq batchDelete_def)
    next
      case False
      have "(uid, note_id n) \<notin> set (map (\<lambda>n. (uid, note_id n)) (filter (selected sel) (notesState s)))"
      proof
        assume "(uid, note_id n) \<in> set (map (\<lambda>n. (uid, note_id n)) (filter (selected sel) (notesState s)))"
        then obtain n' where n': "n' \<in> set (notesState s)" "selected sel n'" "note_id n' = note_id n"
          by auto
        from snapshotOf_same_id[OF assms(4) n'(1) n n'(3)] n'(2) False show False by simp
      qed
      with False snapshotOf_lookup[OF assms(4) n] show ?thesis by (simp add: dbeq batchDelete_def)
    qed
  qed
  have 2: "\<forall>p. p \<notin> (\<lambda>n. (uid, note_id n)) ` {n \<in> set (notesState s). selected sel n} \<longrightarrow>
                db (handleConfirmDelete s) p = db s p"
    by (auto simp: dbeq batchDelete_def)
  have 3: "\<forall>n. selected sel n \<longleftrightarrow>
                (\<exists>d. timestamp n = Some d \<and> fullYear d = y \<and> (sel = Month y m \<longrightarrow> monthLong d = m))"
    using assms(3) by (auto simp: selected_Year selected_Month)
  have 4: "committed (handleConfirmDelete s) =
           (if filter (selected sel) (notesState s) = [] then committed s
            else committed s @ [map (\<lambda>n. (uid, note_id n)) (filter (selected sel) (notesState s))])"
    using assms(1,2) na by (simp add: handleConfirmDelete_def Let_def)
  have 5: "filter (selected sel) (notesState s) = [] \<longrightarrow> db (handleConfirmDelete s) = db s"
    by (simp add: dbeq batchDelete_def)
  from 1 2 3 4 5 show ?thesis by (intro conjI)
qed

theorem handleConfirmDelete_selection_witness:
  "user deleteYearState = Some ''u1'' \<and> showDeleteConfirm deleteYearState = Some (Year 2024)
   \<and> snapshotOf ''u1'' (db deleteYearState) (notesState deleteYearState)
   \<and> db (handleConfirmDelete deleteYearState) (''u1'', ''b'') = None
   \<and> db (handleConfirmDelete deleteYearState) (''u1'', ''c'') = Some (docOf noteNov)
   \<and> db (handleConfirmDelete deleteYearState) (''u1'', ''d'') = Some (docOf notePending)
   \<and> committed (handleConfirmDelete deleteYearState) = [[(''u1'', ''b'')]]"
proof -
  have d: "deleteYearState = sampleState\<lparr>showDeleteConfirm := Some (Year 2024)\<rparr>"
    by (simp add: deleteYearState_def)
  have u: "user deleteYearState = Some ''u1''" by (simp add: d sampleState_def)
  have c: "showDeleteConfirm deleteYearState = Some (Year 2024)" by (simp add: d)
  have ns: "notesState deleteYearState = [noteToday, noteJan, noteNov, notePending]"
    by (simp add: d sampleState_def sampleNotes_def)
  have ids: "note_id noteToday = ''a''" "note_id noteJan = ''b''" "note_id noteNov = ''c''"
    "note_id notePending = ''d''"
    by (simp_all add: noteToday_def noteJan_def noteNov_def notePending_def)
  have dbv: "db deleteYearState = sampleStore" "committed deleteYearState = []"
    by (simp_all add: d sampleState_def)
  have sn: "snapshotOf ''u1'' (db deleteYearState) (notesState deleteYearState)"
    by (simp add: snapshotOf_def ns dbv ids sampleStore_def)
  have sel: "\<not> selected (Year 2024) noteToday" "selected (Year 2024) noteJan"
    "\<not> selected (Year 2024) noteNov" "\<not> selected (Year 2024) notePending"
    by (simp_all add: selected_def sample_defs)
  have y: "Year 2024 = Year 2024 \<or> Year 2024 = Month 2024 []" by simp
  note w = handleConfirmDelete_selection[OF u c y sn]
  from w have a: "\<forall>n \<in> set (notesState deleteYearState).
      db (handleConfirmDelete deleteYearState) (''u1'', note_id n) =
        (if selected (Year 2024) n then None else Some (docOf n))"
    by (rule conjunct1)
  from a have 1: "db (handleConfirmDelete deleteYearState) (''u1'', ''b'') = None"
    by (simp add: ns ids sel)
  from a have 2: "db (handleConfirmDelete deleteYearState) (''u1'', ''c'') = Some (docOf noteNov)"
    by (simp add: ns ids sel)
  from a have 3: "db (handleConfirmDelete deleteYearState) (''u1'', ''d'') = Some (docOf notePending)"
    by (simp add: ns ids sel)
  from w have "committed (handleConfirmDelete deleteYearState) =
           (if filter (selected (Year 2024)) (notesState deleteYearState) = [] then committed deleteYearState
            else committed deleteYearState @
              [map (\<lambda>n. (''u1'', note_id n)) (filter (selected (Year 2024)) (notesState deleteYearState))])"
    by (rule conjunct2[THEN conjunct2, THEN conjunct2, THEN conjunct1])
  then have 4: "committed (handleConfirmDelete deleteYearState) = [[(''u1'', ''b'')]]"
    by (simp add: ns ids sel dbv)
  from u c sn 1 2 3 4 show ?thesis by (intro conjI)
qed

end
